theory Spec2Isabelle
  imports Main "HOL-Library.Word"
begin

section \<open>Configuration loading of the proxy pool server (internal/config/config.go)\<close>

text \<open>
  Go strings are byte sequences, so they are modelled as \<open>string\<close> (lists of 8-bit
  characters). \<open>uint16\<close> is a 16-bit word: \<open>portCursor++\<close> wraps around at 65535.
  \<open>int\<close> and \<open>time.Duration\<close> are only compared with zero and overwritten with
  constants, so they are modelled as \<open>int\<close> (a duration counts nanoseconds).
\<close>

subsection \<open>The standard library functions the package calls\<close>

text \<open>
  \<open>strings.TrimSpace\<close> removes leading and trailing white space as \<open>unicode.IsSpace\<close>
  defines it, on the UTF-8 decoding of the bytes. The white-space code points are the
  six ASCII ones and U+0085, U+00A0, U+1680, U+2000 to U+200A, U+2028, U+2029, U+202F,
  U+205F, U+3000; \<open>spaceRunes\<close> lists their UTF-8 encodings. A byte sequence
  that is not valid UTF-8 decodes to U+FFFD, which is not white space, so a rune is
  white space exactly when the bytes at that place are one of these encodings.
\<close>

definition spaceRunes :: "string list" where
  "spaceRunes =
    [[CHR 0x09], [CHR 0x0A], [CHR 0x0B], [CHR 0x0C], [CHR 0x0D], [CHR 0x20],
     [CHR 0xC2, CHR 0x85], [CHR 0xC2, CHR 0xA0],
     [CHR 0xE1, CHR 0x9A, CHR 0x80],
     [CHR 0xE2, CHR 0x80, CHR 0x80], [CHR 0xE2, CHR 0x80, CHR 0x81],
     [CHR 0xE2, CHR 0x80, CHR 0x82], [CHR 0xE2, CHR 0x80, CHR 0x83],
     [CHR 0xE2, CHR 0x80, CHR 0x84], [CHR 0xE2, CHR 0x80, CHR 0x85],
     [CHR 0xE2, CHR 0x80, CHR 0x86], [CHR 0xE2, CHR 0x80, CHR 0x87],
     [CHR 0xE2, CHR 0x80, CHR 0x88], [CHR 0xE2, CHR 0x80, CHR 0x89],
     [CHR 0xE2, CHR 0x80, CHR 0x8A],
     [CHR 0xE2, CHR 0x80, CHR 0xA8], [CHR 0xE2, CHR 0x80, CHR 0xA9],
     [CHR 0xE2, CHR 0x80, CHR 0xAF], [CHR 0xE2, CHR 0x81, CHR 0x9F],
     [CHR 0xE3, CHR 0x80, CHR 0x80]]"

text \<open>\<open>strings.HasPrefix\<close> and \<open>strings.HasSuffix\<close>.\<close>

definition HasPrefix :: "string \<Rightarrow> string \<Rightarrow> bool" where
  "HasPrefix s p \<longleftrightarrow> take (length p) s = p"

definition HasSuffix :: "string \<Rightarrow> string \<Rightarrow> bool" where
  "HasSuffix s p \<longleftrightarrow> length p \<le> length s \<and> drop (length s - length p) s = p"

text \<open>
  The width in bytes of the white-space rune at the head (at the end) of a string,
  0 when the string does not start (end) with white space.
\<close>

definition leadingSpace :: "string \<Rightarrow> nat" where
  "leadingSpace s = (case find (HasPrefix s) spaceRunes of None \<Rightarrow> 0 | Some w \<Rightarrow> length w)"

definition trailingSpace :: "string \<Rightarrow> nat" where
  "trailingSpace s = (case find (HasSuffix s) spaceRunes of None \<Rightarrow> 0 | Some w \<Rightarrow> length w)"

lemma spaceRunes_nonempty: "w \<in> set spaceRunes \<Longrightarrow> w \<noteq> []"
  by (auto simp: spaceRunes_def)

lemma find_spaceRunes: "find P spaceRunes = Some w \<Longrightarrow> P w \<and> 0 < length w"
  by (auto simp: find_Some_iff dest!: nth_mem [of _ spaceRunes] spaceRunes_nonempty)

lemma leadingSpace_le: "leadingSpace s \<le> length s"
proof (cases "find (HasPrefix s) spaceRunes")
  case None
  then show ?thesis by (simp add: leadingSpace_def)
next
  case (Some w)
  from find_spaceRunes [OF Some] have "take (length w) s = w"
    by (simp add: HasPrefix_def)
  then have "length w \<le> length s"
    by (metis length_take min.cobounded1)
  with Some show ?thesis by (simp add: leadingSpace_def)
qed

lemma leadingSpace_decreases: "0 < leadingSpace s \<Longrightarrow> length s - leadingSpace s < length s"
  using leadingSpace_le [of s] by arith

lemma trailingSpace_le: "trailingSpace s \<le> length s"
proof (cases "find (HasSuffix s) spaceRunes")
  case None
  then show ?thesis by (simp add: trailingSpace_def)
next
  case (Some w)
  from find_spaceRunes [OF Some] have "length w \<le> length s"
    by (simp add: HasSuffix_def)
  with Some show ?thesis by (simp add: trailingSpace_def)
qed

lemma trailingSpace_decreases: "0 < trailingSpace s \<Longrightarrow> length s - trailingSpace s < length s"
  using trailingSpace_le [of s] by arith

function TrimLeft :: "string \<Rightarrow> string" where
  "TrimLeft s = (if leadingSpace s = 0 then s else TrimLeft (drop (leadingSpace s) s))"
  by pat_completeness auto
termination
  by (relation "measure length") (auto intro: leadingSpace_decreases)

declare TrimLeft.simps [simp del]

function TrimRight :: "string \<Rightarrow> string" where
  "TrimRight s = (if trailingSpace s = 0 then s else TrimRight (take (length s - trailingSpace s) s))"
  by pat_completeness auto
termination
  by (relation "measure length") (auto intro: trailingSpace_decreases)

declare TrimRight.simps [simp del]

definition TrimSpace :: "string \<Rightarrow> string" where
  "TrimSpace s = TrimRight (TrimLeft s)"

text \<open>
  \<open>url.QueryUnescape\<close>: \<open>%XY\<close> with two hexadecimal digits becomes the byte
  \<open>0xXY\<close>, \<open>+\<close> becomes a space, every other byte is kept; a \<open>%\<close> that is not
  followed by two hexadecimal digits is an error (\<open>None\<close>).
\<close>

definition ishex :: "char \<Rightarrow> bool" where
  "ishex c \<longleftrightarrow>
     (48 \<le> (of_char c :: nat) \<and> (of_char c :: nat) \<le> 57) \<or>
     (97 \<le> (of_char c :: nat) \<and> (of_char c :: nat) \<le> 102) \<or>
     (65 \<le> (of_char c :: nat) \<and> (of_char c :: nat) \<le> 70)"

definition unhex :: "char \<Rightarrow> nat" where
  "unhex c =
     (if 48 \<le> (of_char c :: nat) \<and> (of_char c :: nat) \<le> 57 then of_char c - 48
      else if 97 \<le> (of_char c :: nat) \<and> (of_char c :: nat) \<le> 102 then of_char c - 97 + 10
      else if 65 \<le> (of_char c :: nat) \<and> (of_char c :: nat) \<le> 70 then of_char c - 65 + 10
      else 0)"

fun QueryUnescape :: "string \<Rightarrow> string option" where
  "QueryUnescape [] = Some []"
| "QueryUnescape (c # s) =
     (if c = CHR ''%'' then
        (case s of
           a # b # rest \<Rightarrow>
             if ishex a \<and> ishex b
             then map_option ((#) (char_of (unhex a * 16 + unhex b))) (QueryUnescape rest)
             else None
         | _ \<Rightarrow> None)
      else if c = CHR ''+'' then map_option ((#) CHR '' '') (QueryUnescape s)
      else map_option ((#) c) (QueryUnescape s))"

text \<open>\<open>fmt.Sprintf("%d", n)\<close> for a non-negative \<open>n\<close>: the decimal digits.\<close>

function itoa :: "nat \<Rightarrow> string" where
  "itoa n = (if n < 10 then [char_of (48 + n)] else itoa (n div 10) @ [char_of (48 + n mod 10)])"
  by pat_completeness auto
termination
  by (relation "measure id") auto

declare itoa.simps [simp del]

text \<open>\<open>strings.Split(s, "\n")\<close>: the pieces between the newlines; one piece more than
  there are newlines, so the empty string gives one empty piece.\<close>

fun Split :: "string \<Rightarrow> string list" where
  "Split [] = [[]]"
| "Split (c # s) =
     (if c = CHR 0x0A then [] # Split s
      else (case Split s of [] \<Rightarrow> [[c]] | l # ls \<Rightarrow> (c # l) # ls))"

subsection \<open>The configuration types\<close>

type_synonym uint16 = "16 word"

record ListenerConfig =
  Address :: string
  Port :: uint16
  Username :: string
  Password :: string

record PoolConfig =
  Mode :: string
  FailureThreshold :: int
  BlacklistDuration :: int

record MultiPortConfig =
  Address :: string
  BasePort :: uint16
  Username :: string
  Password :: string

text \<open>\<open>Enabled\<close> is a \<open>*bool\<close>: \<open>None\<close> is the nil pointer.\<close>

record ManagementConfig =
  Enabled :: "bool option"
  Listen :: string
  ProbeTarget :: string

record NodeConfig =
  Name :: string
  URI :: string
  Port :: uint16
  Username :: string
  Password :: string

record Config =
  Mode :: string
  Listener :: ListenerConfig
  MultiPort :: MultiPortConfig
  Pool :: PoolConfig
  Management :: ManagementConfig
  Nodes :: "NodeConfig list"
  NodesFile :: string
  LogLevel :: string

subsection \<open>Errors and the outside world\<close>

text \<open>
  One constructor for each error the package builds; \<open>LibError\<close> is an error value
  that comes from \<open>os.ReadFile\<close> or \<open>yaml.Unmarshal\<close>, carried as its message.
\<close>

datatype error =
    LibError string
  | ReadConfig error
  | DecodeConfig error
  | UnsupportedMode string
  | LoadNodesFile string error
  | NodesEmpty
  | MissingURI nat

text \<open>
  \<open>url.Parse\<close> returns a \<open>*URL\<close> or an error; the package reads the field
  \<open>Fragment\<close> only.
\<close>

record URL =
  Fragment :: string

text \<open>
  The package reads files, decodes YAML and parses URLs through \<open>os\<close>,
  \<open>gopkg.in/yaml.v3\<close> and \<open>net/url\<close>. These three are parameters of the model:
  the file system (\<open>ReadFile\<close>), the decoder (\<open>Unmarshal\<close>, into a fresh
  \<open>Config\<close>) and the URL parser (\<open>Parse\<close>, \<open>None\<close> when it returns an error).
\<close>

record env =
  ReadFile :: "string \<Rightarrow> error + string"
  Unmarshal :: "string \<Rightarrow> error + Config"
  Parse :: "string \<Rightarrow> URL option"

subsection \<open>loadNodesFromFile\<close>

text \<open>The zero value of \<open>NodeConfig\<close> and of \<open>Config\<close>.\<close>

definition zeroNode :: NodeConfig where
  "zeroNode = \<lparr>Name = [], URI = [], Port = 0, Username = [], Password = []\<rparr>"

definition zeroConfig :: Config where
  "zeroConfig =
     \<lparr>Mode = [],
      Listener = \<lparr>ListenerConfig.Address = [], ListenerConfig.Port = 0,
                  ListenerConfig.Username = [], ListenerConfig.Password = []\<rparr>,
      MultiPort = \<lparr>MultiPortConfig.Address = [], BasePort = 0,
                   MultiPortConfig.Username = [], MultiPortConfig.Password = []\<rparr>,
      Pool = \<lparr>PoolConfig.Mode = [], FailureThreshold = 0, BlacklistDuration = 0\<rparr>,
      Management = \<lparr>Enabled = None, Listen = [], ProbeTarget = []\<rparr>,
      Nodes = [], NodesFile = [], LogLevel = []\<rparr>"

text \<open>
  The loop over the lines, with the slice \<open>nodes\<close> as its state. The counter
  \<open>lineNum\<close> is only read by an \<open>if\<close> with an empty body and is left out.
\<close>

fun loadNodesLines :: "NodeConfig list \<Rightarrow> string list \<Rightarrow> NodeConfig list" where
  "loadNodesLines nodes [] = nodes"
| "loadNodesLines nodes (line # lines) =
     (let line = TrimSpace line in
      if line = [] \<or> HasPrefix line ''#'' then loadNodesLines nodes lines
      else loadNodesLines (nodes @ [zeroNode\<lparr>URI := line\<rparr>]) lines)"

definition loadNodesFromFile :: "env \<Rightarrow> string \<Rightarrow> error + NodeConfig list" where
  "loadNodesFromFile e path =
     (case ReadFile e path of
        Inl err \<Rightarrow> Inl err
      | Inr data \<Rightarrow> Inr (loadNodesLines [] (Split data)))"

subsection \<open>normalize\<close>

text \<open>Lines 82 to 88: the default mode and the alias.\<close>

definition normalizeMode :: "string \<Rightarrow> string" where
  "normalizeMode m =
     (let m = (if m = [] then ''pool'' else m)
      in if m = ''multi_port'' then ''multi-port'' else m)"

text \<open>
  Lines 94 to 124: the defaults. Each \<open>if c.X == zero { c.X = d }\<close> assigns
  \<open>d\<close> to the field \<open>X\<close> when it holds its zero value and reads no other field, so
  the ten statements are one update of ten fields.
\<close>

definition applyDefaults :: "Config \<Rightarrow> Config" where
  "applyDefaults c =
     c\<lparr>Listener := (Listener c)
          \<lparr>ListenerConfig.Address :=
             (if ListenerConfig.Address (Listener c) = [] then ''0.0.0.0''
              else ListenerConfig.Address (Listener c)),
           ListenerConfig.Port :=
             (if ListenerConfig.Port (Listener c) = 0 then 2323
              else ListenerConfig.Port (Listener c))\<rparr>,
       Pool := (Pool c)
          \<lparr>PoolConfig.Mode :=
             (if PoolConfig.Mode (Pool c) = [] then ''sequential''
              else PoolConfig.Mode (Pool c)),
           FailureThreshold :=
             (if FailureThreshold (Pool c) \<le> 0 then 3 else FailureThreshold (Pool c)),
           BlacklistDuration :=
             (if BlacklistDuration (Pool c) \<le> 0 then 24 * 3600000000000
              else BlacklistDuration (Pool c))\<rparr>,
       MultiPort := (MultiPort c)
          \<lparr>MultiPortConfig.Address :=
             (if MultiPortConfig.Address (MultiPort c) = [] then ''0.0.0.0''
              else MultiPortConfig.Address (MultiPort c)),
           BasePort :=
             (if BasePort (MultiPort c) = 0 then 28000 else BasePort (MultiPort c))\<rparr>,
       Management := (Management c)
          \<lparr>Listen :=
             (if Listen (Management c) = [] then ''127.0.0.1:9090''
              else Listen (Management c)),
           ProbeTarget :=
             (if ProbeTarget (Management c) = [] then ''www.apple.com:80''
              else ProbeTarget (Management c)),
           Enabled :=
             (if Enabled (Management c) = None then Some True
              else Enabled (Management c))\<rparr>\<rparr>"

text \<open>Lines 127 to 134: the nodes of the file are appended to those of the document.\<close>

definition mergeNodes :: "env \<Rightarrow> Config \<Rightarrow> error + Config" where
  "mergeNodes e c =
     (if NodesFile c \<noteq> [] then
        (case loadNodesFromFile e (NodesFile c) of
           Inl err \<Rightarrow> Inl (LoadNodesFile (NodesFile c) err)
         | Inr fileNodes \<Rightarrow> Inr (c\<lparr>Nodes := Nodes c @ fileNodes\<rparr>))
      else Inr c)"

text \<open>
  Lines 141 to 176: the body of the loop over the nodes, for the node \<open>n\<close> at index
  \<open>idx\<close>. It returns the node and the port cursor, or the error that leaves the loop.
\<close>

definition normalizeNode ::
  "env \<Rightarrow> Config \<Rightarrow> nat \<Rightarrow> uint16 \<Rightarrow> NodeConfig \<Rightarrow> error + NodeConfig \<times> uint16" where
  "normalizeNode e c idx portCursor n =
     (let n = n\<lparr>Name := TrimSpace (Name n)\<rparr>;
          n = n\<lparr>URI := TrimSpace (URI n)\<rparr>
      in if URI n = [] then Inl (MissingURI idx)
      else
        let n = (if Name n = [] then
                   (case Parse e (URI n) of
                      None \<Rightarrow> n
                    | Some parsed \<Rightarrow>
                        if Fragment parsed \<noteq> [] then
                          (case QueryUnescape (Fragment parsed) of
                             Some decoded \<Rightarrow> n\<lparr>Name := decoded\<rparr>
                           | None \<Rightarrow> n\<lparr>Name := Fragment parsed\<rparr>)
                        else n)
                 else n);
            n = (if Name n = [] then n\<lparr>Name := ''node-'' @ itoa idx\<rparr> else n);
            (n, portCursor) =
                (if Port n = 0 then (n\<lparr>Port := portCursor\<rparr>, portCursor + 1)
                 else (n, portCursor));
            n = (if Mode c = ''multi-port'' then
                   (if Username n = [] then
                      n\<lparr>Username := MultiPortConfig.Username (MultiPort c),
                        Password := MultiPortConfig.Password (MultiPort c)\<rparr>
                    else n)
                 else n)
        in Inr (n, portCursor))"

fun normalizeNodes ::
  "env \<Rightarrow> Config \<Rightarrow> nat \<Rightarrow> uint16 \<Rightarrow> NodeConfig list \<Rightarrow> error + NodeConfig list" where
  "normalizeNodes e c idx portCursor [] = Inr []"
| "normalizeNodes e c idx portCursor (n # ns) =
     (case normalizeNode e c idx portCursor n of
        Inl err \<Rightarrow> Inl err
      | Inr (n', portCursor') \<Rightarrow>
          (case normalizeNodes e c (Suc idx) portCursor' ns of
             Inl err \<Rightarrow> Inl err
           | Inr ns' \<Rightarrow> Inr (n' # ns')))"

text \<open>
  \<open>normalize\<close> changes its receiver in place and returns an error or nil. Its only
  caller drops the receiver when there is an error, so the model returns either the
  error or the configuration.
\<close>

definition normalize :: "env \<Rightarrow> Config \<Rightarrow> error + Config" where
  "normalize e c =
     (let c = c\<lparr>Mode := normalizeMode (Mode c)\<rparr>
      in if Mode c \<noteq> ''pool'' \<and> Mode c \<noteq> ''multi-port'' then Inl (UnsupportedMode (Mode c))
      else
        (case mergeNodes e (applyDefaults c) of
           Inl err \<Rightarrow> Inl err
         | Inr c \<Rightarrow>
             if length (Nodes c) = 0 then Inl NodesEmpty
             else
               (case normalizeNodes e c 0 (BasePort (MultiPort c)) (Nodes c) of
                  Inl err \<Rightarrow> Inl err
                | Inr ns \<Rightarrow>
                    let c = c\<lparr>Nodes := ns\<rparr>
                    in Inr (if LogLevel c = [] then c\<lparr>LogLevel := ''info''\<rparr> else c))))"

subsection \<open>Load and ManagementEnabled\<close>

definition Load :: "env \<Rightarrow> string \<Rightarrow> error + Config" where
  "Load e path =
     (case ReadFile e path of
        Inl err \<Rightarrow> Inl (ReadConfig err)
      | Inr data \<Rightarrow>
          (case Unmarshal e data of
             Inl err \<Rightarrow> Inl (DecodeConfig err)
           | Inr cfg \<Rightarrow> normalize e cfg))"

definition ManagementEnabled :: "Config \<Rightarrow> bool" where
  "ManagementEnabled c =
     (case Enabled (Management c) of None \<Rightarrow> True | Some enabled \<Rightarrow> enabled)"

subsection \<open>Notions used to state the properties\<close>

text \<open>The node list after the merge of lines 127 to 134, or the error of the merge.\<close>

definition mergedNodes :: "env \<Rightarrow> Config \<Rightarrow> error + NodeConfig list" where
  "mergedNodes e c = map_sum id Nodes (mergeNodes e c)"

text \<open>
  The name of the node at index \<open>idx\<close> as the specification words it: the explicit
  name after trimming; else the decoded fragment of the URI, or the fragment as it is
  when decoding fails; else \<open>node-<idx>\<close>.
\<close>

definition derivedName :: "env \<Rightarrow> nat \<Rightarrow> NodeConfig \<Rightarrow> string" where
  "derivedName e idx n =
     (if TrimSpace (Name n) \<noteq> [] then TrimSpace (Name n)
      else
        (case Parse e (TrimSpace (URI n)) of
           None \<Rightarrow> ''node-'' @ itoa idx
         | Some parsed \<Rightarrow>
             if Fragment parsed = [] then ''node-'' @ itoa idx
             else
               (case QueryUnescape (Fragment parsed) of
                  Some decoded \<Rightarrow> decoded
                | None \<Rightarrow> Fragment parsed)))"

text \<open>The port cursor when the loop reaches index i.\<close>

definition cursorAt :: "uint16 \<Rightarrow> NodeConfig list \<Rightarrow> nat \<Rightarrow> uint16" where
  "cursorAt cur ns i = cur + of_nat (length (filter (\<lambda>n. Port n = 0) (take i ns)))"

text \<open>The configuration after the mode and the defaults (lines 82 to 124).\<close>

definition prepared :: "Config \<Rightarrow> Config" where
  "prepared c = applyDefaults (c\<lparr>Mode := normalizeMode (Mode c)\<rparr>)"

subsection \<open>Example inputs\<close>

text \<open>
  A file system with two node files, and the results of \<open>url.Parse\<close> on the URIs
  of the examples: \<open>socks5://h:3#50%25\<close> has the fragment \<open>50%\<close>, which
  \<open>url.QueryUnescape\<close> rejects; \<open>socks5://h:bad\<close> has an invalid port and does
  not parse; the other URIs parse and have no fragment.
\<close>

definition exampleEnv :: env where
  "exampleEnv =
     \<lparr>ReadFile = (\<lambda>path.
         if path = ''nodes.txt''
         then Inr (''# comment'' @ [CHR 0x0A, CHR 0x0A] @ '' socks5://x:1 '' @ [CHR 0x0D, CHR 0x0A]
                   @ ''socks5://h:3#50%25'' @ [CHR 0x0A])
         else if path = ''comments.txt''
         then Inr (''# no nodes here'' @ [CHR 0x0A] @ ''   '' @ [CHR 0x0A])
         else Inl (LibError ''open: no such file or directory'')),
      Unmarshal = (\<lambda>data. Inl (LibError ''yaml: unmarshal errors'')),
      Parse = (\<lambda>rawURL.
         if rawURL = ''socks5://h:1#Alice'' then Some \<lparr>Fragment = ''Alice''\<rparr>
         else if rawURL = ''socks5://h:3#50%25'' then Some \<lparr>Fragment = ''50%''\<rparr>
         else if rawURL = ''socks5://h:bad'' then None
         else Some \<lparr>Fragment = []\<rparr>)\<rparr>"

definition exampleConfig :: Config where
  "exampleConfig =
     zeroConfig
       \<lparr>Mode := ''multi_port'',
        MultiPort := (MultiPort zeroConfig)
          \<lparr>MultiPortConfig.Username := ''user'', MultiPortConfig.Password := ''secret''\<rparr>,
        Nodes :=
          [zeroNode\<lparr>URI := ''socks5://h:1#Alice''\<rparr>,
           zeroNode\<lparr>Name := '' named '', URI := ''socks5://h:2'', Port := 9000,
                    Username := ''own'', Password := ''pw''\<rparr>,
           zeroNode\<lparr>URI := ''socks5://h:bad'', Password := ''orphan''\<rparr>],
        NodesFile := ''nodes.txt''\<rparr>"


definition exampleMerged :: "NodeConfig list" where
  "exampleMerged =
     [zeroNode\<lparr>URI := ''socks5://h:1#Alice''\<rparr>,
      zeroNode\<lparr>Name := '' named '', URI := ''socks5://h:2'', Port := 9000,
               Username := ''own'', Password := ''pw''\<rparr>,
      zeroNode\<lparr>URI := ''socks5://h:bad'', Password := ''orphan''\<rparr>,
      zeroNode\<lparr>URI := ''socks5://x:1''\<rparr>,
      zeroNode\<lparr>URI := ''socks5://h:3#50%25''\<rparr>]"

definition exampleResolved :: Config where
  "exampleResolved =
     \<lparr>Mode = ''multi-port'',
      Listener = \<lparr>ListenerConfig.Address = ''0.0.0.0'', ListenerConfig.Port = 2323,
                  ListenerConfig.Username = [], ListenerConfig.Password = []\<rparr>,
      MultiPort = \<lparr>MultiPortConfig.Address = ''0.0.0.0'', BasePort = 28000,
                   MultiPortConfig.Username = ''user'', MultiPortConfig.Password = ''secret''\<rparr>,
      Pool = \<lparr>PoolConfig.Mode = ''sequential'', FailureThreshold = 3,
              BlacklistDuration = 86400000000000\<rparr>,
      Management = \<lparr>Enabled = Some True, Listen = ''127.0.0.1:9090'',
                    ProbeTarget = ''www.apple.com:80''\<rparr>,
      Nodes =
        [\<lparr>Name = ''Alice'', URI = ''socks5://h:1#Alice'', Port = 28000,
           Username = ''user'', Password = ''secret''\<rparr>,
         \<lparr>Name = ''named'', URI = ''socks5://h:2'', Port = 9000,
           Username = ''own'', Password = ''pw''\<rparr>,
         \<lparr>Name = ''node-2'', URI = ''socks5://h:bad'', Port = 28001,
           Username = ''user'', Password = ''secret''\<rparr>,
         \<lparr>Name = ''node-3'', URI = ''socks5://x:1'', Port = 28002,
           Username = ''user'', Password = ''secret''\<rparr>,
         \<lparr>Name = ''50%'', URI = ''socks5://h:3#50%25'', Port = 28003,
           Username = ''user'', Password = ''secret''\<rparr>],
      NodesFile = ''nodes.txt'', LogLevel = ''info''\<rparr>"


text \<open>The example of the specification: two inline nodes, everything else unset.\<close>

definition specConfig :: Config where
  "specConfig =
     zeroConfig\<lparr>Nodes := [zeroNode\<lparr>URI := ''socks5://h:1#Alice''\<rparr>,
                          zeroNode\<lparr>URI := ''socks5://h:2''\<rparr>]\<rparr>"

definition specResolved :: Config where
  "specResolved =
     \<lparr>Mode = ''pool'',
      Listener = \<lparr>ListenerConfig.Address = ''0.0.0.0'', ListenerConfig.Port = 2323,
                  ListenerConfig.Username = [], ListenerConfig.Password = []\<rparr>,
      MultiPort = \<lparr>MultiPortConfig.Address = ''0.0.0.0'', BasePort = 28000,
                   MultiPortConfig.Username = [], MultiPortConfig.Password = []\<rparr>,
      Pool = \<lparr>PoolConfig.Mode = ''sequential'', FailureThreshold = 3,
              BlacklistDuration = 86400000000000\<rparr>,
      Management = \<lparr>Enabled = Some True, Listen = ''127.0.0.1:9090'',
                    ProbeTarget = ''www.apple.com:80''\<rparr>,
      Nodes =
        [\<lparr>Name = ''Alice'', URI = ''socks5://h:1#Alice'', Port = 28000,
           Username = [], Password = []\<rparr>,
         \<lparr>Name = ''node-1'', URI = ''socks5://h:2'', Port = 28001,
           Username = [], Password = []\<rparr>],
      NodesFile = [], LogLevel = ''info''\<rparr>"

definition poolConfig :: Config where
  "poolConfig = exampleConfig\<lparr>Mode := ''pool''\<rparr>"

definition poolResolved :: Config where
  "poolResolved =
     exampleResolved
       \<lparr>Mode := ''pool'',
        Nodes :=
          [\<lparr>Name = ''Alice'', URI = ''socks5://h:1#Alice'', Port = 28000,
             Username = [], Password = []\<rparr>,
           \<lparr>Name = ''named'', URI = ''socks5://h:2'', Port = 9000,
             Username = ''own'', Password = ''pw''\<rparr>,
           \<lparr>Name = ''node-2'', URI = ''socks5://h:bad'', Port = 28001,
             Username = [], Password = ''orphan''\<rparr>,
           \<lparr>Name = ''node-3'', URI = ''socks5://x:1'', Port = 28002,
             Username = [], Password = []\<rparr>,
           \<lparr>Name = ''50%'', URI = ''socks5://h:3#50%25'', Port = 28003,
             Username = [], Password = []\<rparr>]\<rparr>"

definition duplicateConfig :: Config where
  "duplicateConfig =
     zeroConfig\<lparr>Nodes := [zeroNode\<lparr>URI := ''socks5://h:1'', Port := 28000\<rparr>,
                          zeroNode\<lparr>URI := ''socks5://h:2''\<rparr>]\<rparr>"

definition wrapConfig :: Config where
  "wrapConfig =
     zeroConfig\<lparr>MultiPort := (MultiPort zeroConfig)\<lparr>BasePort := 65535\<rparr>,
                Nodes := [zeroNode\<lparr>URI := ''socks5://h:1''\<rparr>,
                          zeroNode\<lparr>URI := ''socks5://h:2''\<rparr>]\<rparr>"

definition duplicateResolved :: Config where
  "duplicateResolved =
     specResolved\<lparr>Nodes :=
       [\<lparr>Name = ''node-0'', URI = ''socks5://h:1'', Port = 28000, Username = [], Password = []\<rparr>,
        \<lparr>Name = ''node-1'', URI = ''socks5://h:2'', Port = 28000, Username = [], Password = []\<rparr>]\<rparr>"

definition wrapFileConfig :: Config where
  "wrapFileConfig =
     zeroConfig\<lparr>Mode := ''multi-port'',
                MultiPort := (MultiPort zeroConfig)\<lparr>BasePort := 65535\<rparr>,
                NodesFile := ''nodes.txt''\<rparr>"

section \<open>Properties of the functions\<close>

subsection \<open>The library functions\<close>

lemma QueryUnescape_nonempty: "QueryUnescape s = Some t \<Longrightarrow> s \<noteq> [] \<Longrightarrow> t \<noteq> []"
  by (cases s) (auto split: if_splits list.splits)

lemma Split_nonempty: "Split s \<noteq> []"
  by (induction s) (auto split: list.splits)

lemma Split_no_newline: "line \<in> set (Split s) \<Longrightarrow> CHR 0x0A \<notin> set line"
proof (induction s arbitrary: line)
  case Nil
  then show ?case by simp
next
  case (Cons c s)
  show ?case
  proof (cases "c = CHR 0x0A")
    case True
    with Cons show ?thesis by auto
  next
    case False
    from Split_nonempty [of s] obtain l ls where ls: "Split s = l # ls"
      by (cases "Split s") auto
    with False Cons.prems have "line = c # l \<or> line \<in> set ls" by simp
    with False ls Cons.IH show ?thesis by auto
  qed
qed

lemma Split_lines: "concat (map (\<lambda>line. line @ [CHR 0x0A]) (Split s)) = s @ [CHR 0x0A]"
proof (induction s)
  case Nil
  then show ?case by simp
next
  case (Cons c s)
  from Split_nonempty [of s] obtain l ls where "Split s = l # ls"
    by (cases "Split s") auto
  with Cons show ?case by simp
qed

subsection \<open>loadNodesFromFile\<close>

lemma loadNodesLines_append:
  "loadNodesLines nodes lines =
     nodes @ map (\<lambda>line. zeroNode\<lparr>URI := line\<rparr>)
               (filter (\<lambda>line. line \<noteq> [] \<and> \<not> HasPrefix line ''#'') (map TrimSpace lines))"
  by (induction lines arbitrary: nodes) (simp_all add: Let_def)

lemma loadNodesFromFile_no_nodes:
  assumes "ReadFile e path = Inr data"
    and "\<forall>line \<in> set (Split data). TrimSpace line = [] \<or> HasPrefix (TrimSpace line) ''#''"
  shows "loadNodesFromFile e path = Inr []"
proof -
  from assms(2) have
    "filter (\<lambda>line. line \<noteq> [] \<and> \<not> HasPrefix line ''#'') (map TrimSpace (Split data)) = []"
    by (auto simp: filter_empty_conv)
  with assms(1) show ?thesis
    by (simp add: loadNodesFromFile_def loadNodesLines_append)
qed

subsection \<open>The body of the loop over the nodes\<close>

lemma normalizeNode_URI:
  "normalizeNode e c idx cur n = Inr (n', cur') \<Longrightarrow>
     URI n' = TrimSpace (URI n) \<and> URI n' \<noteq> []"
  by (auto simp: normalizeNode_def Let_def split: if_splits option.splits)

lemma normalizeNode_Inl:
  "normalizeNode e c idx cur n = Inl err \<longleftrightarrow> TrimSpace (URI n) = [] \<and> err = MissingURI idx"
  by (auto simp: normalizeNode_def Let_def split: if_splits option.splits prod.splits)

lemma normalizeNode_Name:
  "normalizeNode e c idx cur n = Inr (n', cur') \<Longrightarrow> Name n' = derivedName e idx n"
  by (auto simp: normalizeNode_def derivedName_def Let_def
      split: if_splits option.splits dest: QueryUnescape_nonempty)

lemma derivedName_nonempty: "derivedName e idx n \<noteq> []"
  by (auto simp: derivedName_def split: option.splits dest: QueryUnescape_nonempty)

lemma normalizeNode_Port:
  "normalizeNode e c idx cur n = Inr (n', cur') \<Longrightarrow>
     Port n' = (if Port n = 0 then cur else Port n) \<and>
     cur' = (if Port n = 0 then cur + 1 else cur)"
  by (auto simp: normalizeNode_def Let_def split: if_splits option.splits)

lemma normalizeNode_credentials:
  "normalizeNode e c idx cur n = Inr (n', cur') \<Longrightarrow>
     (if Mode c = ''multi-port'' \<and> Username n = []
      then Username n' = MultiPortConfig.Username (MultiPort c) \<and>
           Password n' = MultiPortConfig.Password (MultiPort c)
      else Username n' = Username n \<and> Password n' = Password n)"
  by (auto simp: normalizeNode_def Let_def split: if_splits option.splits)

lemma normalizeNode_config:
  "Mode c = Mode d \<Longrightarrow> MultiPort c = MultiPort d \<Longrightarrow>
     normalizeNode e c idx cur n = normalizeNode e d idx cur n"
  by (simp add: normalizeNode_def Let_def)

subsection \<open>The loop over the nodes\<close>

lemma cursorAt_Cons_Suc:
  "cursorAt cur (n # ns) (Suc i) = cursorAt (if Port n = 0 then cur + 1 else cur) ns i"
  by (simp add: cursorAt_def)

lemma normalizeNodes_length:
  "normalizeNodes e c idx cur ns = Inr ns' \<Longrightarrow> length ns' = length ns"
  by (induction ns arbitrary: idx cur ns') (auto split: sum.splits prod.splits)

lemma normalizeNodes_nth:
  "normalizeNodes e c idx cur ns = Inr ns' \<Longrightarrow> i < length ns \<Longrightarrow>
     normalizeNode e c (idx + i) (cursorAt cur ns i) (ns ! i) =
       Inr (ns' ! i, cursorAt cur ns (Suc i))"
proof (induction ns arbitrary: idx cur ns' i)
  case Nil
  then show ?case by simp
next
  case (Cons n ns)
  from Cons.prems(1) obtain n' cur' rest where
    body: "normalizeNode e c idx cur n = Inr (n', cur')" and
    tl: "normalizeNodes e c (Suc idx) cur' ns = Inr rest" and
    ns': "ns' = n' # rest"
    by (auto split: sum.splits prod.splits)
  from normalizeNode_Port [OF body]
  have cur': "cur' = (if Port n = 0 then cur + 1 else cur)" by simp
  show ?case
  proof (cases i)
    case 0
    with body cur' ns' show ?thesis
      by (simp add: cursorAt_def)
  next
    case (Suc j)
    with Cons.prems(2) have "j < length ns" by simp
    from Cons.IH [OF tl this] Suc cur' ns' show ?thesis
      by (simp add: cursorAt_Cons_Suc)
  qed
qed

lemma normalizeNodes_Inr_iff:
  "(\<exists>ns'. normalizeNodes e c idx cur ns = Inr ns') \<longleftrightarrow> (\<forall>n \<in> set ns. TrimSpace (URI n) \<noteq> [])"
proof (induction ns arbitrary: idx cur)
  case Nil
  then show ?case by simp
next
  case (Cons n ns)
  show ?case
  proof (cases "normalizeNode e c idx cur n")
    case (Inl err)
    then have "TrimSpace (URI n) = []" by (simp add: normalizeNode_Inl)
    with Inl show ?thesis by simp
  next
    case (Inr r)
    obtain n' cur' where r: "r = (n', cur')" by (cases r)
    from Inr r have "TrimSpace (URI n) \<noteq> []"
      using normalizeNode_URI by metis
    with Inr r Cons.IH [of "Suc idx" cur'] show ?thesis
      by (auto split: sum.splits)
  qed
qed

lemma normalizeNodes_Inl:
  "normalizeNodes e c idx cur ns = Inl err \<Longrightarrow> \<exists>i. err = MissingURI i"
  by (induction ns arbitrary: idx cur)
     (auto simp: normalizeNode_Inl split: sum.splits prod.splits)

lemma normalizeNodes_config:
  "Mode c = Mode d \<Longrightarrow> MultiPort c = MultiPort d \<Longrightarrow>
     normalizeNodes e c idx cur ns = normalizeNodes e d idx cur ns"
  by (induction ns arbitrary: idx cur)
     (auto simp: normalizeNode_config [of c d] split: sum.splits)

subsection \<open>The defaults and the merge\<close>

lemma applyDefaults_Nodes [simp]:
  "Nodes (applyDefaults c) = Nodes c"
  "NodesFile (applyDefaults c) = NodesFile c"
  "Mode (applyDefaults c) = Mode c"
  "LogLevel (applyDefaults c) = LogLevel c"
  by (simp_all add: applyDefaults_def)

lemma applyDefaults_MultiPort [simp]:
  "MultiPortConfig.Username (MultiPort (applyDefaults c)) = MultiPortConfig.Username (MultiPort c)"
  "MultiPortConfig.Password (MultiPort (applyDefaults c)) = MultiPortConfig.Password (MultiPort c)"
  "BasePort (MultiPort (applyDefaults c)) =
     (if BasePort (MultiPort c) = 0 then 28000 else BasePort (MultiPort c))"
  by (simp_all add: applyDefaults_def)

lemma applyDefaults_concrete:
  "ListenerConfig.Address (Listener (applyDefaults c)) \<noteq> []"
  "ListenerConfig.Port (Listener (applyDefaults c)) \<noteq> 0"
  "PoolConfig.Mode (Pool (applyDefaults c)) \<noteq> []"
  "0 < FailureThreshold (Pool (applyDefaults c))"
  "0 < BlacklistDuration (Pool (applyDefaults c))"
  "MultiPortConfig.Address (MultiPort (applyDefaults c)) \<noteq> []"
  "BasePort (MultiPort (applyDefaults c)) \<noteq> 0"
  "Listen (Management (applyDefaults c)) \<noteq> []"
  "ProbeTarget (Management (applyDefaults c)) \<noteq> []"
  "Enabled (Management (applyDefaults c)) \<noteq> None"
  by (auto simp: applyDefaults_def)

lemma prepared_fields [simp]:
  "Mode (prepared c) = normalizeMode (Mode c)"
  "MultiPortConfig.Username (MultiPort (prepared c)) = MultiPortConfig.Username (MultiPort c)"
  "MultiPortConfig.Password (MultiPort (prepared c)) = MultiPortConfig.Password (MultiPort c)"
  by (simp_all add: prepared_def)

lemma prepared_BasePort:
  "BasePort (MultiPort (prepared c)) =
     (if BasePort (MultiPort c) = 0 then 28000 else BasePort (MultiPort c))"
  by (simp add: prepared_def)

lemma mergeNodes_Inr:
  "mergeNodes e c = Inr m \<Longrightarrow> m = c\<lparr>Nodes := Nodes m\<rparr>"
  by (auto simp: mergeNodes_def split: if_splits sum.splits)

lemma mergedNodes_cong:
  "Nodes c = Nodes d \<Longrightarrow> NodesFile c = NodesFile d \<Longrightarrow> mergedNodes e c = mergedNodes e d"
  by (auto simp: mergedNodes_def mergeNodes_def split: sum.splits)

lemma mergedNodes_prepared [simp]:
  "mergedNodes e (applyDefaults (c\<lparr>Mode := m\<rparr>)) = mergedNodes e c"
  by (rule mergedNodes_cong) simp_all

lemma mergedNodes_no_file: "NodesFile c = [] \<Longrightarrow> mergedNodes e c = Inr (Nodes c)"
  by (simp add: mergedNodes_def mergeNodes_def)

lemma mergedNodes_file:
  "NodesFile c \<noteq> [] \<Longrightarrow> loadNodesFromFile e (NodesFile c) = Inr F \<Longrightarrow>
     mergedNodes e c = Inr (Nodes c @ F)"
  by (simp add: mergedNodes_def mergeNodes_def)

lemma mergedNodes_Inl:
  "mergedNodes e c = Inl err \<Longrightarrow> \<exists>p x. err = LoadNodesFile p x"
  by (auto simp: mergedNodes_def mergeNodes_def split: if_splits sum.splits)

subsection \<open>normalize as a whole\<close>

text \<open>
  With an unsupported mode \<open>normalize\<close> returns the mode error; with a supported one
  it is the merge, the check for an empty list, the loop and the default log level.
\<close>

lemma normalizeMode_valid:
  "normalizeMode m = ''pool'' \<or> normalizeMode m = ''multi-port'' \<longleftrightarrow>
     m \<in> {[], ''pool'', ''multi_port'', ''multi-port''}"
  by (auto simp: normalizeMode_def Let_def)

lemma normalizeMode_invalid:
  "m \<notin> {[], ''pool'', ''multi_port'', ''multi-port''} \<Longrightarrow> normalizeMode m = m"
  by (auto simp: normalizeMode_def Let_def)

lemma normalize_invalid_mode:
  "m \<notin> {[], ''pool'', ''multi_port'', ''multi-port''} \<Longrightarrow> Mode c = m \<Longrightarrow>
     normalize e c = Inl (UnsupportedMode m)"
  using normalizeMode_valid [of m] normalizeMode_invalid [of m]
  by (simp add: normalize_def Let_def)

lemma normalize_valid_mode:
  "Mode c \<in> {[], ''pool'', ''multi_port'', ''multi-port''} \<Longrightarrow>
     normalize e c =
       (case mergedNodes e c of
          Inl err \<Rightarrow> Inl err
        | Inr ms \<Rightarrow>
            if ms = [] then Inl NodesEmpty
            else
              (case normalizeNodes e (prepared c) 0 (BasePort (MultiPort (prepared c))) ms of
                 Inl err \<Rightarrow> Inl err
               | Inr ns \<Rightarrow>
                   Inr ((prepared c)\<lparr>Nodes := ns,
                          LogLevel := (if LogLevel c = [] then ''info'' else LogLevel c)\<rparr>)))"
proof -
  assume "Mode c \<in> {[], ''pool'', ''multi_port'', ''multi-port''}"
  then have mode: "normalizeMode (Mode c) = ''pool'' \<or> normalizeMode (Mode c) = ''multi-port''"
    by (simp only: normalizeMode_valid)
  let ?p = "prepared c"
  have ms: "mergedNodes e c = map_sum id Nodes (mergeNodes e ?p)"
    using mergedNodes_prepared [where e = e and c = c and m = "normalizeMode (Mode c)"]
    by (simp add: mergedNodes_def prepared_def)
  show ?thesis
  proof (cases "mergeNodes e ?p")
    case (Inl err)
    with mode ms show ?thesis
      by (auto simp: normalize_def Let_def prepared_def)
  next
    case (Inr m)
    from mergeNodes_Inr [OF Inr] have m_eq: "m = ?p\<lparr>Nodes := Nodes m\<rparr>" .
    have mp: "MultiPort m = MultiPort ?p" and md: "Mode m = Mode ?p" and ll: "LogLevel m = LogLevel c"
      by (subst m_eq, simp add: prepared_def)+
    have loop: "normalizeNodes e m 0 (BasePort (MultiPort m)) (Nodes m) =
                normalizeNodes e ?p 0 (BasePort (MultiPort ?p)) (Nodes m)"
      using normalizeNodes_config [OF md mp] mp by simp
    have fin: "\<And>ns. (if LogLevel (m\<lparr>Nodes := ns\<rparr>) = [] then m\<lparr>Nodes := ns, LogLevel := ''info''\<rparr>
               else m\<lparr>Nodes := ns\<rparr>) =
               ?p\<lparr>Nodes := ns, LogLevel := (if LogLevel c = [] then ''info'' else LogLevel c)\<rparr>"
      by (subst m_eq, subst (2) m_eq, subst (3) m_eq) (simp add: prepared_def)
    from mode Inr ms loop fin show ?thesis
      by (auto simp: normalize_def Let_def prepared_def split: sum.splits)
  qed
qed

lemma normalize_InrE:
  assumes "normalize e c = Inr c'"
  obtains ms ns where
    "Mode c \<in> {[], ''pool'', ''multi_port'', ''multi-port''}"
    "mergedNodes e c = Inr ms" "ms \<noteq> []"
    "normalizeNodes e (prepared c) 0 (BasePort (MultiPort (prepared c))) ms = Inr ns"
    "c' = (prepared c)\<lparr>Nodes := ns,
            LogLevel := (if LogLevel c = [] then ''info'' else LogLevel c)\<rparr>"
proof -
  have mode: "Mode c \<in> {[], ''pool'', ''multi_port'', ''multi-port''}"
  proof (rule ccontr)
    assume "Mode c \<notin> {[], ''pool'', ''multi_port'', ''multi-port''}"
    from normalize_invalid_mode [OF this refl, of e] assms show False by simp
  qed
  from assms normalize_valid_mode [OF mode, of e] obtain ms ns where
    "mergedNodes e c = Inr ms" "ms \<noteq> []"
    "normalizeNodes e (prepared c) 0 (BasePort (MultiPort (prepared c))) ms = Inr ns"
    "c' = (prepared c)\<lparr>Nodes := ns,
            LogLevel := (if LogLevel c = [] then ''info'' else LogLevel c)\<rparr>"
    by (auto split: sum.splits if_splits)
  with mode show ?thesis by (rule that)
qed

lemma normalize_loopE:
  assumes "normalize e c = Inr c'" "mergedNodes e c = Inr ms"
  obtains ns where
    "normalizeNodes e (prepared c) 0 (BasePort (MultiPort (prepared c))) ms = Inr ns"
    "c' = (prepared c)\<lparr>Nodes := ns,
            LogLevel := (if LogLevel c = [] then ''info'' else LogLevel c)\<rparr>"
proof -
  from assms(1) obtain ms' ns where
    ms': "mergedNodes e c = Inr ms'" and
    loop: "normalizeNodes e (prepared c) 0 (BasePort (MultiPort (prepared c))) ms' = Inr ns" and
    c': "c' = (prepared c)\<lparr>Nodes := ns,
            LogLevel := (if LogLevel c = [] then ''info'' else LogLevel c)\<rparr>"
    by (rule normalize_InrE)
  from ms' assms(2) have "ms' = ms" by simp
  with loop c' show ?thesis by (intro that) simp_all
qed

lemma normalize_Mode:
  assumes "normalize e c = Inr c'" shows "Mode c' = normalizeMode (Mode c)"
proof -
  from assms obtain ms ns where
    "c' = (prepared c)\<lparr>Nodes := ns,
            LogLevel := (if LogLevel c = [] then ''info'' else LogLevel c)\<rparr>"
    by (rule normalize_InrE)
  then show ?thesis by simp
qed

lemma normalize_no_mode_error:
  assumes "Mode c \<in> {[], ''pool'', ''multi_port'', ''multi-port''}"
  shows "normalize e c \<noteq> Inl (UnsupportedMode m)"
proof
  assume err: "normalize e c = Inl (UnsupportedMode m)"
  show False
  proof (cases "mergedNodes e c")
    case (Inl x)
    then obtain p y where "x = LoadNodesFile p y"
      by (auto simp: mergedNodes_def mergeNodes_def split: sum.splits if_splits)
    with Inl err normalize_valid_mode [OF assms, of e] show False by simp
  next
    case (Inr ms)
    show False
    proof (cases "ms = []")
      case True
      with Inr err normalize_valid_mode [OF assms, of e] show False by simp
    next
      case False
      with Inr err normalize_valid_mode [OF assms, of e]
      have "normalizeNodes e (prepared c) 0 (BasePort (MultiPort (prepared c))) ms =
              Inl (UnsupportedMode m)"
        by (simp split: sum.splits)
      from normalizeNodes_Inl [OF this] show False by simp
    qed
  qed
qed

lemma normalize_NodesEmpty_iff:
  "normalize e c = Inl NodesEmpty \<longleftrightarrow>
     Mode c \<in> {[], ''pool'', ''multi_port'', ''multi-port''} \<and> mergedNodes e c = Inr []"
proof (cases "Mode c \<in> {[], ''pool'', ''multi_port'', ''multi-port''}")
  case False
  from normalize_invalid_mode [OF False refl, of e] False show ?thesis by simp
next
  case True
  show ?thesis
  proof (cases "mergedNodes e c")
    case (Inl err)
    with mergedNodes_Inl [OF Inl] normalize_valid_mode [OF True, of e] show ?thesis by auto
  next
    case (Inr ms)
    show ?thesis
    proof (cases "ms = []")
      case True
      with Inr \<open>Mode c \<in> _\<close> normalize_valid_mode [of c e] show ?thesis by simp
    next
      case False
      have "normalize e c \<noteq> Inl NodesEmpty"
      proof
        assume "normalize e c = Inl NodesEmpty"
        with Inr False normalize_valid_mode [OF True, of e]
        have "normalizeNodes e (prepared c) 0 (BasePort (MultiPort (prepared c))) ms =
                Inl NodesEmpty"
          by (simp split: sum.splits)
        from normalizeNodes_Inl [OF this] show False by simp
      qed
      with Inr False show ?thesis by simp
    qed
  qed
qed

lemma normalize_URIs:
  assumes "normalize e c = Inr c'" "mergedNodes e c = Inr ms"
  shows "map URI (Nodes c') = map (\<lambda>n. TrimSpace (URI n)) ms"
proof -
  from assms obtain ns where
    loop: "normalizeNodes e (prepared c) 0 (BasePort (MultiPort (prepared c))) ms = Inr ns" and
    c': "c' = (prepared c)\<lparr>Nodes := ns,
            LogLevel := (if LogLevel c = [] then ''info'' else LogLevel c)\<rparr>"
    by (auto elim: normalize_InrE)
  from c' have ns: "Nodes c' = ns" by simp
  have "URI (ns ! i) = TrimSpace (URI (ms ! i))" if "i < length ms" for i
    using normalizeNode_URI [OF normalizeNodes_nth [OF loop that]] by simp
  with normalizeNodes_length [OF loop] ns show ?thesis
    by (simp add: list_eq_iff_nth_eq)
qed

lemma normalize_BasePort:
  assumes "normalize e c = Inr c'"
  shows "BasePort (MultiPort c') =
           (if BasePort (MultiPort c) = 0 then 28000 else BasePort (MultiPort c))"
proof -
  from assms obtain ms ns where
    "c' = (prepared c)\<lparr>Nodes := ns,
            LogLevel := (if LogLevel c = [] then ''info'' else LogLevel c)\<rparr>"
    by (rule normalize_InrE)
  then show ?thesis by (simp add: prepared_BasePort)
qed

lemma Load_Inr:
  "Load e path = Inr c' \<longleftrightarrow>
     (\<exists>data cfg. ReadFile e path = Inr data \<and> Unmarshal e data = Inr cfg \<and>
                 normalize e cfg = Inr c')"
  by (auto simp: Load_def split: sum.splits)

subsection \<open>The resolved ports\<close>

text \<open>
  A node with port zero gets the value of the cursor, which is the base port plus the
  number of earlier nodes with port zero, in 16-bit arithmetic. While the cursor does
  not pass 65535 the assigned ports are nonzero and, when no node has a port of its own,
  they are the base port and its successors.
\<close>

lemma normalize_Ports:
  assumes "normalize e c = Inr c'" "mergedNodes e c = Inr ms" "i < length ms"
  shows "Port (Nodes c' ! i) =
           (if Port (ms ! i) = 0 then cursorAt (BasePort (MultiPort c')) ms i else Port (ms ! i))"
proof -
  from assms(1,2) obtain ns where
    loop: "normalizeNodes e (prepared c) 0 (BasePort (MultiPort (prepared c))) ms = Inr ns" and
    c': "c' = (prepared c)\<lparr>Nodes := ns,
            LogLevel := (if LogLevel c = [] then ''info'' else LogLevel c)\<rparr>"
    by (auto elim: normalize_InrE)
  from c' have ns: "Nodes c' = ns" and base: "BasePort (MultiPort c') = BasePort (MultiPort (prepared c))"
    by simp_all
  from normalizeNode_Port [OF normalizeNodes_nth [OF loop assms(3)]] ns base
  show ?thesis by simp
qed

lemma unat_cursor:
  "unat (b :: uint16) + k < 65536 \<Longrightarrow> unat (b + of_nat k) = unat b + k"
  by (simp add: unat_word_ariths unat_of_nat)

lemma cursorAt_all_zero:
  "\<forall>n \<in> set ms. Port n = 0 \<Longrightarrow> i \<le> length ms \<Longrightarrow> cursorAt b ms i = b + of_nat i"
proof -
  assume z: "\<forall>n \<in> set ms. Port n = 0" and i: "i \<le> length ms"
  from z have "filter (\<lambda>n. Port n = 0) (take i ms) = take i ms"
    by (auto simp: filter_id_conv dest: in_set_takeD)
  with i show ?thesis by (simp add: cursorAt_def)
qed

lemma normalize_ports_contiguous:
  assumes "normalize e c = Inr c'" "mergedNodes e c = Inr ms" "\<forall>n \<in> set ms. Port n = 0"
  shows "map Port (Nodes c') = map (\<lambda>i. BasePort (MultiPort c') + of_nat i) [0..<length ms]"
proof -
  from assms(1,2) obtain ns where
    loop: "normalizeNodes e (prepared c) 0 (BasePort (MultiPort (prepared c))) ms = Inr ns" and
    c': "c' = (prepared c)\<lparr>Nodes := ns,
            LogLevel := (if LogLevel c = [] then ''info'' else LogLevel c)\<rparr>"
    by (rule normalize_loopE)
  from c' normalizeNodes_length [OF loop] have len: "length (Nodes c') = length ms" by simp
  have "Port (Nodes c' ! i) = BasePort (MultiPort c') + of_nat i" if i: "i < length ms" for i
  proof -
    from assms(3) i have z: "Port (ms ! i) = 0"
      by (meson nth_mem)
    from i have "i \<le> length ms" by simp
    from cursorAt_all_zero [OF assms(3) this]
    have "cursorAt (BasePort (MultiPort c')) ms i = BasePort (MultiPort c') + of_nat i" .
    with normalize_Ports [OF assms(1,2) i] z show ?thesis
      by simp
  qed
  note port = this
  show ?thesis
  proof (rule nth_equalityI)
    from len show "length (map Port (Nodes c')) =
        length (map (\<lambda>i. BasePort (MultiPort c') + of_nat i) [0..<length ms])"
      by simp
  next
    fix i assume "i < length (map Port (Nodes c'))"
    with len have i: "i < length ms" by simp
    from i len have "map Port (Nodes c') ! i = Port (Nodes c' ! i)" by simp
    moreover from i have "map (\<lambda>i. BasePort (MultiPort c') + of_nat i) [0..<length ms] ! i =
        BasePort (MultiPort c') + of_nat i" by simp
    ultimately show "map Port (Nodes c') ! i =
        map (\<lambda>i. BasePort (MultiPort c') + of_nat i) [0..<length ms] ! i"
      using port [OF i] by (simp only:)
  qed
qed

lemma normalize_ports_increasing:
  assumes "normalize e c = Inr c'" "mergedNodes e c = Inr ms" "\<forall>n \<in> set ms. Port n = 0"
    and "unat (BasePort (MultiPort c')) + length ms \<le> 65536"
  shows "map (\<lambda>n. unat (Port n)) (Nodes c') =
           [unat (BasePort (MultiPort c')) ..< unat (BasePort (MultiPort c')) + length ms]"
proof -
  let ?b = "BasePort (MultiPort c')"
  have "map (\<lambda>n. unat (Port n)) (Nodes c') = map unat (map Port (Nodes c'))" by simp
  also have "\<dots> = map (\<lambda>i. unat (?b + of_nat i)) [0..<length ms]"
    by (simp add: normalize_ports_contiguous [OF assms(1-3)] comp_def)
  also have "\<dots> = map (\<lambda>i. unat ?b + i) [0..<length ms]"
    using assms(4) by (intro map_cong refl unat_cursor) simp
  also have "\<dots> = [unat ?b ..< unat ?b + length ms]"
    by (simp add: map_add_upt add.commute)
  finally show ?thesis .
qed

lemma count_zero_before:
  assumes "i < length ms" "Port (ms ! i) = 0"
  shows "length (filter (\<lambda>n. Port n = 0) (take i ms)) < length (filter (\<lambda>n. Port n = 0) ms)"
proof -
  from assms(1) have "ms = take i ms @ ms ! i # drop (Suc i) ms"
    by (simp add: id_take_nth_drop)
  then have "filter (\<lambda>n. Port n = 0) ms =
      filter (\<lambda>n. Port n = 0) (take i ms) @ filter (\<lambda>n. Port n = 0) (ms ! i # drop (Suc i) ms)"
    by (metis filter_append)
  with assms(2) show ?thesis by simp
qed

lemma normalize_ports_nonzero:
  assumes "normalize e c = Inr c'" "mergedNodes e c = Inr ms"
    and "unat (BasePort (MultiPort c')) + length (filter (\<lambda>n. Port n = 0) ms) \<le> 65536"
  shows "\<forall>n \<in> set (Nodes c'). Port n \<noteq> 0"
proof -
  let ?b = "BasePort (MultiPort c')"
  from assms(1,2) obtain ns where
    loop: "normalizeNodes e (prepared c) 0 (BasePort (MultiPort (prepared c))) ms = Inr ns" and
    c': "c' = (prepared c)\<lparr>Nodes := ns,
            LogLevel := (if LogLevel c = [] then ''info'' else LogLevel c)\<rparr>"
    by (rule normalize_loopE)
  from c' normalizeNodes_length [OF loop] have len: "length (Nodes c') = length ms" by simp
  from normalize_BasePort [OF assms(1)] have base: "?b \<noteq> 0" by (auto split: if_splits)
  have "Port (Nodes c' ! i) \<noteq> 0" if i: "i < length ms" for i
  proof (cases "Port (ms ! i) = 0")
    case False
    with normalize_Ports [OF assms(1,2) i] show ?thesis by simp
  next
    case True
    let ?k = "length (filter (\<lambda>n. Port n = 0) (take i ms))"
    from count_zero_before [OF i True] assms(3) have "unat ?b + ?k < 65536" by simp
    then have "unat (?b + of_nat ?k) = unat ?b + ?k" by (rule unat_cursor)
    moreover from base have "unat ?b \<noteq> 0" by (simp add: unat_eq_zero)
    ultimately have "?b + of_nat ?k \<noteq> 0" by (metis add_is_0 unat_0)
    with normalize_Ports [OF assms(1,2) i] True show ?thesis by (simp add: cursorAt_def)
  qed
  with len show ?thesis by (auto simp: in_set_conv_nth)
qed

subsection \<open>The resolved configuration\<close>

text \<open>
  Everything a resolved configuration promises, but for the ports of the nodes (see
  \<open>normalize_ports_nonzero\<close> for those).
\<close>

lemma normalize_invariant:
  assumes "normalize e c = Inr c'"
  shows "(Mode c' = ''pool'' \<or> Mode c' = ''multi-port'') \<and>
         Nodes c' \<noteq> [] \<and>
         (\<forall>n \<in> set (Nodes c'). Name n \<noteq> [] \<and> URI n \<noteq> []) \<and>
         ListenerConfig.Address (Listener c') \<noteq> [] \<and>
         ListenerConfig.Port (Listener c') \<noteq> 0 \<and>
         PoolConfig.Mode (Pool c') \<noteq> [] \<and>
         0 < FailureThreshold (Pool c') \<and>
         0 < BlacklistDuration (Pool c') \<and>
         MultiPortConfig.Address (MultiPort c') \<noteq> [] \<and>
         BasePort (MultiPort c') \<noteq> 0 \<and>
         Listen (Management c') \<noteq> [] \<and>
         ProbeTarget (Management c') \<noteq> [] \<and>
         Enabled (Management c') \<noteq> None \<and>
         LogLevel c' \<noteq> []"
proof -
  from assms obtain ms ns where
    mode: "Mode c \<in> {[], ''pool'', ''multi_port'', ''multi-port''}" and
    ms: "mergedNodes e c = Inr ms" "ms \<noteq> []" and
    loop: "normalizeNodes e (prepared c) 0 (BasePort (MultiPort (prepared c))) ms = Inr ns" and
    c': "c' = (prepared c)\<lparr>Nodes := ns,
            LogLevel := (if LogLevel c = [] then ''info'' else LogLevel c)\<rparr>"
    by (rule normalize_InrE)
  from c' have ns: "Nodes c' = ns"
    and fields: "Listener c' = Listener (prepared c)" "Pool c' = Pool (prepared c)"
      "MultiPort c' = MultiPort (prepared c)" "Management c' = Management (prepared c)"
    and log: "LogLevel c' \<noteq> []"
    by simp_all
  from mode c' have 1: "Mode c' = ''pool'' \<or> Mode c' = ''multi-port''"
    by (simp add: normalizeMode_valid)
  from ns ms(2) normalizeNodes_length [OF loop] have 2: "Nodes c' \<noteq> []" by auto
  have "Name (ns ! i) \<noteq> [] \<and> URI (ns ! i) \<noteq> []" if "i < length ms" for i
    using normalizeNode_Name [OF normalizeNodes_nth [OF loop that]]
      normalizeNode_URI [OF normalizeNodes_nth [OF loop that], THEN conjunct2]
    by (simp add: derivedName_nonempty)
  with ns normalizeNodes_length [OF loop]
  have 3: "\<forall>n \<in> set (Nodes c'). Name n \<noteq> [] \<and> URI n \<noteq> []"
    by (auto simp: in_set_conv_nth)
  from 1 2 3 log show ?thesis
    unfolding fields prepared_def by (intro conjI applyDefaults_concrete)
qed

subsection \<open>The examples, evaluated\<close>

lemma normalize_example: "normalize exampleEnv exampleConfig = Inr exampleResolved"
  by code_simp

lemma mergedNodes_example: "mergedNodes exampleEnv exampleConfig = Inr exampleMerged"
  by code_simp

lemma length_exampleMerged: "length exampleMerged = 5"
  by (simp add: exampleMerged_def)

lemma loadNodesFromFile_example:
  "loadNodesFromFile exampleEnv ''nodes.txt'' =
     Inr [zeroNode\<lparr>URI := ''socks5://x:1''\<rparr>, zeroNode\<lparr>URI := ''socks5://h:3#50%25''\<rparr>]"
  by code_simp

lemma normalize_specConfig: "normalize exampleEnv specConfig = Inr specResolved"
  by code_simp

lemma normalize_poolConfig: "normalize exampleEnv poolConfig = Inr poolResolved"
  by code_simp

lemma mergedNodes_poolConfig: "mergedNodes exampleEnv poolConfig = Inr exampleMerged"
  by code_simp

lemma normalize_duplicateConfig: "normalize exampleEnv duplicateConfig = Inr duplicateResolved"
  by code_simp

section \<open>The claims of the specification\<close>

text \<open>
  Claim C1: when loading succeeds and no node has an explicit port, the resolved ports, in
  the order of the merged list, are the strictly increasing sequence base, base+1,
  base+2, ... from the configured base port (28000 when it is zero), in both modes.

  The code breaks this when the port cursor passes 65535: \<open>portCursor\<close> is a
  \<open>uint16\<close> and \<open>portCursor++\<close> wraps around. With base port 65535 and two nodes
  without a port, \<open>normalize\<close> succeeds and the resolved ports are 65535 and 0.
  (While the cursor does not wrap the claim holds: \<open>normalize_ports_increasing\<close>.)
\<close>

theorem port_sequence_wraps:
  "\<exists>r. normalize exampleEnv wrapConfig = Inr r \<and>
       map Port (Nodes wrapConfig) = [0, 0] \<and>
       BasePort (MultiPort r) = 65535 \<and>
       map Port (Nodes r) = [65535, 0]"
proof -
  have "normalize exampleEnv wrapConfig =
          Inr (specResolved
            \<lparr>MultiPort := (MultiPort specResolved)\<lparr>BasePort := 65535\<rparr>,
             Nodes :=
               [\<lparr>Name = ''node-0'', URI = ''socks5://h:1'', Port = 65535,
                  Username = [], Password = []\<rparr>,
                \<lparr>Name = ''node-1'', URI = ''socks5://h:2'', Port = 0,
                  Username = [], Password = []\<rparr>]\<rparr>)"
    by code_simp
  moreover have "map Port (Nodes wrapConfig) = [0, 0]"
    by (simp add: wrapConfig_def zeroNode_def)
  ultimately show ?thesis by simp
qed

text \<open>
  Claim C2: when normalization succeeds, the mode is \<open>pool\<close> or \<open>multi-port\<close>, the
  node list is not empty, every node has a non-empty name, a non-empty URI and a nonzero
  port, and every field with a default holds a concrete value.

  All of it holds (\<open>normalize_invariant\<close>) but the nonzero port: the same wrap of the
  port cursor assigns port 0, the value that means that no port is assigned. With base
  port 65535 and a node file of two nodes, in \<open>multi-port\<close> mode, \<open>normalize\<close>
  succeeds and the second node has port 0.
\<close>

theorem resolved_port_zero:
  "\<exists>r. normalize exampleEnv wrapFileConfig = Inr r \<and>
       map URI (Nodes r) = [''socks5://x:1'', ''socks5://h:3#50%25''] \<and>
       map Port (Nodes r) = [65535, 0]"
proof -
  have "normalize exampleEnv wrapFileConfig =
          Inr (specResolved
            \<lparr>Mode := ''multi-port'',
             MultiPort := (MultiPort specResolved)\<lparr>BasePort := 65535\<rparr>,
             Nodes :=
               [\<lparr>Name = ''node-0'', URI = ''socks5://x:1'', Port = 65535,
                  Username = [], Password = []\<rparr>,
                \<lparr>Name = ''50%'', URI = ''socks5://h:3#50%25'', Port = 0,
                  Username = [], Password = []\<rparr>],
             NodesFile := ''nodes.txt''\<rparr>)"
    by code_simp
  then show ?thesis by simp
qed

text \<open>
  Claim C3: an empty mode resolves to \<open>pool\<close>, \<open>multi_port\<close> to \<open>multi-port\<close>,
  \<open>pool\<close> and \<open>multi-port\<close> are kept, and with any other mode loading fails with the
  error that carries this mode. The resolved mode is the mode of the configuration that
  \<open>normalize\<close> returns; with one of the four supported spellings \<open>normalize\<close> may
  still fail for another reason, but never with the unsupported-mode error.
\<close>

theorem mode_normalization:
  "(Mode c = [] \<longrightarrow> (\<forall>c'. normalize e c = Inr c' \<longrightarrow> Mode c' = ''pool'')) \<and>
   (Mode c = ''multi_port'' \<longrightarrow> (\<forall>c'. normalize e c = Inr c' \<longrightarrow> Mode c' = ''multi-port'')) \<and>
   (Mode c = ''pool'' \<or> Mode c = ''multi-port'' \<longrightarrow>
      (\<forall>c'. normalize e c = Inr c' \<longrightarrow> Mode c' = Mode c)) \<and>
   (Mode c \<in> {[], ''pool'', ''multi_port'', ''multi-port''} \<longrightarrow>
      (\<forall>m. normalize e c \<noteq> Inl (UnsupportedMode m))) \<and>
   (Mode c \<notin> {[], ''pool'', ''multi_port'', ''multi-port''} \<longrightarrow>
      normalize e c = Inl (UnsupportedMode (Mode c)))"
proof (intro conjI impI allI)
  fix c' assume "Mode c = []" "normalize e c = Inr c'"
  with normalize_Mode [of e c c'] show "Mode c' = ''pool''"
    by (simp add: normalizeMode_def)
next
  fix c' assume "Mode c = ''multi_port''" "normalize e c = Inr c'"
  with normalize_Mode [of e c c'] show "Mode c' = ''multi-port''"
    by (simp add: normalizeMode_def)
next
  fix c' assume "Mode c = ''pool'' \<or> Mode c = ''multi-port''" "normalize e c = Inr c'"
  with normalize_Mode [of e c c'] show "Mode c' = Mode c"
    by (auto simp: normalizeMode_def)
next
  fix m assume "Mode c \<in> {[], ''pool'', ''multi_port'', ''multi-port''}"
  then show "normalize e c \<noteq> Inl (UnsupportedMode m)"
    by (rule normalize_no_mode_error)
next
  assume "Mode c \<notin> {[], ''pool'', ''multi_port'', ''multi-port''}"
  from normalize_invalid_mode [OF this refl]
  show "normalize e c = Inl (UnsupportedMode (Mode c))" .
qed

theorem mode_normalization_witness:
  "Mode specConfig = [] \<and> normalize exampleEnv specConfig = Inr specResolved \<and>
   Mode specResolved = ''pool'' \<and>
   Mode exampleConfig = ''multi_port'' \<and>
   normalize exampleEnv exampleConfig = Inr exampleResolved \<and>
   Mode exampleResolved = ''multi-port'' \<and>
   normalize exampleEnv (zeroConfig\<lparr>Mode := ''Pool''\<rparr>) = Inl (UnsupportedMode ''Pool'')"
proof -
  have a: "Mode specConfig = []"
    by (simp add: specConfig_def zeroConfig_def)
  have b: "Mode exampleConfig = ''multi_port''"
    by (simp add: exampleConfig_def zeroConfig_def)
  have c: "Mode (zeroConfig\<lparr>Mode := ''Pool''\<rparr>) \<notin> {[], ''pool'', ''multi_port'', ''multi-port''}"
    by simp
  from mode_normalization [where c = specConfig and e = exampleEnv] a normalize_specConfig
  have 1: "Mode specResolved = ''pool''" by blast
  from mode_normalization [where c = exampleConfig and e = exampleEnv] b normalize_example
  have 2: "Mode exampleResolved = ''multi-port''" by blast
  from mode_normalization [where c = "zeroConfig\<lparr>Mode := ''Pool''\<rparr>" and e = exampleEnv] c
  have 3: "normalize exampleEnv (zeroConfig\<lparr>Mode := ''Pool''\<rparr>) = Inl (UnsupportedMode ''Pool'')"
    by simp
  from a b 1 2 3 normalize_specConfig normalize_example show ?thesis by blast
qed

text \<open>
  Claim C4: the resolved name of the node at index \<open>i\<close> of the merged list is its
  explicit name after trimming when that is not empty; else, when the URI parses
  and has a non-empty fragment, the decoded fragment, or the fragment itself when decoding
  fails; else \<open>node-i\<close>. This is \<open>derivedName\<close>.
\<close>

theorem name_precedence:
  "normalize e c = Inr c' \<Longrightarrow>
     \<exists>ms. mergedNodes e c = Inr ms \<and> length (Nodes c') = length ms \<and>
          (\<forall>i<length ms. Name (Nodes c' ! i) = derivedName e i (ms ! i))"
proof -
  assume "normalize e c = Inr c'"
  then obtain ms ns where ms: "mergedNodes e c = Inr ms" and
    loop: "normalizeNodes e (prepared c) 0 (BasePort (MultiPort (prepared c))) ms = Inr ns" and
    c': "c' = (prepared c)\<lparr>Nodes := ns,
            LogLevel := (if LogLevel c = [] then ''info'' else LogLevel c)\<rparr>"
    by (rule normalize_InrE)
  from c' have ns: "Nodes c' = ns" by simp
  have "Name (ns ! i) = derivedName e i (ms ! i)" if "i < length ms" for i
    using normalizeNodes_nth [OF loop that] normalizeNode_Name by fastforce
  with ms ns normalizeNodes_length [OF loop] show ?thesis by simp
qed

theorem name_precedence_witness:
  "normalize exampleEnv exampleConfig = Inr exampleResolved \<and>
   Name (Nodes exampleResolved ! 0) = derivedName exampleEnv 0 (exampleMerged ! 0) \<and>
   derivedName exampleEnv 0 (exampleMerged ! 0) = ''Alice'' \<and>
   Name (Nodes exampleResolved ! 1) = derivedName exampleEnv 1 (exampleMerged ! 1) \<and>
   derivedName exampleEnv 1 (exampleMerged ! 1) = ''named'' \<and>
   Name (Nodes exampleResolved ! 2) = derivedName exampleEnv 2 (exampleMerged ! 2) \<and>
   derivedName exampleEnv 2 (exampleMerged ! 2) = ''node-2'' \<and>
   Name (Nodes exampleResolved ! 4) = derivedName exampleEnv 4 (exampleMerged ! 4) \<and>
   derivedName exampleEnv 4 (exampleMerged ! 4) = ''50%''"
proof -
  from name_precedence [OF normalize_example] mergedNodes_example
  have all: "\<forall>i<length exampleMerged.
               Name (Nodes exampleResolved ! i) = derivedName exampleEnv i (exampleMerged ! i)"
    by auto
  have 0: "Name (Nodes exampleResolved ! 0) = derivedName exampleEnv 0 (exampleMerged ! 0)"
    and 1: "Name (Nodes exampleResolved ! 1) = derivedName exampleEnv 1 (exampleMerged ! 1)"
    and 2: "Name (Nodes exampleResolved ! 2) = derivedName exampleEnv 2 (exampleMerged ! 2)"
    and 4: "Name (Nodes exampleResolved ! 4) = derivedName exampleEnv 4 (exampleMerged ! 4)"
    using all length_exampleMerged by simp_all
  have v0: "derivedName exampleEnv 0 (exampleMerged ! 0) = ''Alice''" by code_simp
  have v1: "derivedName exampleEnv 1 (exampleMerged ! 1) = ''named''" by code_simp
  have v2: "derivedName exampleEnv 2 (exampleMerged ! 2) = ''node-2''" by code_simp
  have v4: "derivedName exampleEnv 4 (exampleMerged ! 4) = ''50%''" by code_simp
  from normalize_example 0 1 2 4 v0 v1 v2 v4 show ?thesis by simp
qed

text \<open>
  Claim C5: a node inherits credentials exactly when the resolved mode is \<open>multi-port\<close>
  and its username is empty; then both its username and its password are those of the
  multi-port defaults, whatever its password was. Every other node, and every node in
  \<open>pool\<close> mode, keeps its username and its password.
\<close>

theorem credential_inheritance:
  "normalize e c = Inr c' \<Longrightarrow>
     \<exists>ms. mergedNodes e c = Inr ms \<and> length (Nodes c') = length ms \<and>
          (\<forall>i<length ms.
             if Mode c' = ''multi-port'' \<and> Username (ms ! i) = []
             then Username (Nodes c' ! i) = MultiPortConfig.Username (MultiPort c) \<and>
                  Password (Nodes c' ! i) = MultiPortConfig.Password (MultiPort c)
             else Username (Nodes c' ! i) = Username (ms ! i) \<and>
                  Password (Nodes c' ! i) = Password (ms ! i))"
proof -
  assume "normalize e c = Inr c'"
  then obtain ms ns where ms: "mergedNodes e c = Inr ms" and
    loop: "normalizeNodes e (prepared c) 0 (BasePort (MultiPort (prepared c))) ms = Inr ns" and
    c': "c' = (prepared c)\<lparr>Nodes := ns,
            LogLevel := (if LogLevel c = [] then ''info'' else LogLevel c)\<rparr>"
    by (rule normalize_InrE)
  from c' have ns: "Nodes c' = ns" and mode: "Mode c' = Mode (prepared c)" by simp_all
  have "if Mode (prepared c) = ''multi-port'' \<and> Username (ms ! i) = []
        then Username (ns ! i) = MultiPortConfig.Username (MultiPort c) \<and>
             Password (ns ! i) = MultiPortConfig.Password (MultiPort c)
        else Username (ns ! i) = Username (ms ! i) \<and> Password (ns ! i) = Password (ms ! i)"
    if "i < length ms" for i
    using normalizeNode_credentials [OF normalizeNodes_nth [OF loop that]] by simp
  with ms ns mode normalizeNodes_length [OF loop] show ?thesis by simp
qed

theorem credential_inheritance_witness:
  "normalize exampleEnv exampleConfig = Inr exampleResolved \<and>
   Username (exampleMerged ! 2) = [] \<and> Password (exampleMerged ! 2) = ''orphan'' \<and>
   Username (Nodes exampleResolved ! 2) = ''user'' \<and>
   Password (Nodes exampleResolved ! 2) = ''secret'' \<and>
   Username (Nodes exampleResolved ! 1) = Username (exampleMerged ! 1) \<and>
   Password (Nodes exampleResolved ! 1) = Password (exampleMerged ! 1) \<and>
   normalize exampleEnv poolConfig = Inr poolResolved \<and>
   Username (Nodes poolResolved ! 2) = [] \<and>
   Password (Nodes poolResolved ! 2) = ''orphan''"
proof -
  have mode: "Mode exampleResolved = ''multi-port''" "Mode poolResolved = ''pool''"
    by (simp_all add: exampleResolved_def poolResolved_def)
  have creds: "MultiPortConfig.Username (MultiPort exampleConfig) = ''user''"
    "MultiPortConfig.Password (MultiPort exampleConfig) = ''secret''"
    by (simp_all add: exampleConfig_def zeroConfig_def)
  have n1: "Username (exampleMerged ! 1) = ''own''"
    and n2: "Username (exampleMerged ! 2) = []" "Password (exampleMerged ! 2) = ''orphan''"
    by (simp_all add: exampleMerged_def zeroNode_def)
  from credential_inheritance [OF normalize_example] mergedNodes_example
  have multi: "\<forall>i<length exampleMerged.
     if Mode exampleResolved = ''multi-port'' \<and> Username (exampleMerged ! i) = []
     then Username (Nodes exampleResolved ! i) = MultiPortConfig.Username (MultiPort exampleConfig) \<and>
          Password (Nodes exampleResolved ! i) = MultiPortConfig.Password (MultiPort exampleConfig)
     else Username (Nodes exampleResolved ! i) = Username (exampleMerged ! i) \<and>
          Password (Nodes exampleResolved ! i) = Password (exampleMerged ! i)"
    by auto
  from credential_inheritance [OF normalize_poolConfig] mergedNodes_poolConfig
  have pool: "\<forall>i<length exampleMerged.
     if Mode poolResolved = ''multi-port'' \<and> Username (exampleMerged ! i) = []
     then Username (Nodes poolResolved ! i) = MultiPortConfig.Username (MultiPort poolConfig) \<and>
          Password (Nodes poolResolved ! i) = MultiPortConfig.Password (MultiPort poolConfig)
     else Username (Nodes poolResolved ! i) = Username (exampleMerged ! i) \<and>
          Password (Nodes poolResolved ! i) = Password (exampleMerged ! i)"
    by auto
  from multi [rule_format, of 2] mode creds n2 length_exampleMerged
  have a: "Username (Nodes exampleResolved ! 2) = ''user'' \<and>
           Password (Nodes exampleResolved ! 2) = ''secret''" by simp
  from multi [rule_format, of 1] n1 length_exampleMerged
  have b: "Username (Nodes exampleResolved ! 1) = Username (exampleMerged ! 1) \<and>
           Password (Nodes exampleResolved ! 1) = Password (exampleMerged ! 1)" by simp
  from pool [rule_format, of 2] mode n2 length_exampleMerged
  have c: "Username (Nodes poolResolved ! 2) = [] \<and>
           Password (Nodes poolResolved ! 2) = ''orphan''" by simp
  from a b c n2 normalize_example normalize_poolConfig show ?thesis by simp
qed

text \<open>
  Claim C6: the merged node list is the inline list when no node file is configured, and
  the inline list followed by the descriptors of the file otherwise; the loop over the
  nodes runs on this list, so the resolved nodes are in its order.
\<close>

theorem merge_order:
  "(NodesFile c = [] \<longrightarrow> mergedNodes e c = Inr (Nodes c)) \<and>
   (NodesFile c \<noteq> [] \<longrightarrow>
      (\<forall>F. loadNodesFromFile e (NodesFile c) = Inr F \<longrightarrow> mergedNodes e c = Inr (Nodes c @ F))) \<and>
   (\<forall>c'. normalize e c = Inr c' \<longrightarrow>
      (\<exists>ms. mergedNodes e c = Inr ms \<and>
            normalizeNodes e (prepared c) 0 (BasePort (MultiPort (prepared c))) ms =
              Inr (Nodes c') \<and>
            map URI (Nodes c') = map (\<lambda>n. TrimSpace (URI n)) ms))"
proof (intro conjI impI allI)
  assume "NodesFile c = []"
  then show "mergedNodes e c = Inr (Nodes c)" by (rule mergedNodes_no_file)
next
  fix F assume "NodesFile c \<noteq> []" "loadNodesFromFile e (NodesFile c) = Inr F"
  then show "mergedNodes e c = Inr (Nodes c @ F)" by (rule mergedNodes_file)
next
  fix c' assume ok: "normalize e c = Inr c'"
  then obtain ms ns where ms: "mergedNodes e c = Inr ms" and
    loop: "normalizeNodes e (prepared c) 0 (BasePort (MultiPort (prepared c))) ms = Inr ns" and
    c': "c' = (prepared c)\<lparr>Nodes := ns,
            LogLevel := (if LogLevel c = [] then ''info'' else LogLevel c)\<rparr>"
    by (rule normalize_InrE)
  from c' have "Nodes c' = ns" by simp
  with ms loop normalize_URIs [OF ok ms]
  show "\<exists>ms. mergedNodes e c = Inr ms \<and>
            normalizeNodes e (prepared c) 0 (BasePort (MultiPort (prepared c))) ms =
              Inr (Nodes c') \<and>
            map URI (Nodes c') = map (\<lambda>n. TrimSpace (URI n)) ms"
    by auto
qed

theorem merge_order_witness:
  "NodesFile specConfig = [] \<and> mergedNodes exampleEnv specConfig = Inr (Nodes specConfig) \<and>
   NodesFile exampleConfig \<noteq> [] \<and>
   mergedNodes exampleEnv exampleConfig =
     Inr (Nodes exampleConfig @
          [zeroNode\<lparr>URI := ''socks5://x:1''\<rparr>, zeroNode\<lparr>URI := ''socks5://h:3#50%25''\<rparr>]) \<and>
   normalize exampleEnv exampleConfig = Inr exampleResolved \<and>
   map URI (Nodes exampleResolved) = map (\<lambda>n. TrimSpace (URI n)) exampleMerged"
proof -
  have nf: "NodesFile specConfig = []"
    by (simp add: specConfig_def zeroConfig_def)
  have f: "NodesFile exampleConfig = ''nodes.txt''"
    by (simp add: exampleConfig_def zeroConfig_def)
  from merge_order [where c = specConfig and e = exampleEnv] nf
  have a: "mergedNodes exampleEnv specConfig = Inr (Nodes specConfig)" by blast
  from merge_order [where c = exampleConfig and e = exampleEnv] f loadNodesFromFile_example
  have b: "mergedNodes exampleEnv exampleConfig =
     Inr (Nodes exampleConfig @
          [zeroNode\<lparr>URI := ''socks5://x:1''\<rparr>, zeroNode\<lparr>URI := ''socks5://h:3#50%25''\<rparr>])"
    by simp
  from merge_order [where c = exampleConfig and e = exampleEnv] normalize_example
    mergedNodes_example
  have c: "map URI (Nodes exampleResolved) = map (\<lambda>n. TrimSpace (URI n)) exampleMerged"
    by auto
  from nf f a b c normalize_example show ?thesis by simp
qed

text \<open>
  Claim C7: normalization fails with the empty-node-list error exactly when the mode is
  supported and the merged list is empty. So a configuration with no inline node and no
  node file fails, and so does one with no inline node whose node file has only blank
  and comment lines: with the empty-node-list error, or with the mode error when the
  mode is unsupported.
\<close>

theorem empty_node_list_error:
  "(normalize e c = Inl NodesEmpty \<longleftrightarrow>
      Mode c \<in> {[], ''pool'', ''multi_port'', ''multi-port''} \<and> mergedNodes e c = Inr []) \<and>
   (Nodes c = [] \<and> NodesFile c = [] \<longrightarrow>
      normalize e c =
        Inl (if Mode c \<in> {[], ''pool'', ''multi_port'', ''multi-port''} then NodesEmpty
             else UnsupportedMode (Mode c))) \<and>
   (Nodes c = [] \<and> NodesFile c \<noteq> [] \<and> ReadFile e (NodesFile c) = Inr data \<and>
    (\<forall>line \<in> set (Split data). TrimSpace line = [] \<or> HasPrefix (TrimSpace line) ''#'') \<longrightarrow>
      normalize e c =
        Inl (if Mode c \<in> {[], ''pool'', ''multi_port'', ''multi-port''} then NodesEmpty
             else UnsupportedMode (Mode c)))"
proof -
  have fails: "normalize e c =
        Inl (if Mode c \<in> {[], ''pool'', ''multi_port'', ''multi-port''} then NodesEmpty
             else UnsupportedMode (Mode c))" if "mergedNodes e c = Inr []"
  proof (cases "Mode c \<in> {[], ''pool'', ''multi_port'', ''multi-port''}")
    case True
    with that normalize_NodesEmpty_iff [of e c] show ?thesis by simp
  next
    case False
    from normalize_invalid_mode [OF False refl, of e] False show ?thesis by simp
  qed
  have a: "mergedNodes e c = Inr []" if "Nodes c = [] \<and> NodesFile c = []"
    using that mergedNodes_no_file [of c e] by simp
  have b: "mergedNodes e c = Inr []"
    if "Nodes c = [] \<and> NodesFile c \<noteq> [] \<and> ReadFile e (NodesFile c) = Inr data \<and>
        (\<forall>line \<in> set (Split data). TrimSpace line = [] \<or> HasPrefix (TrimSpace line) ''#'')"
    using that mergedNodes_file [of c e "[]"] loadNodesFromFile_no_nodes [of e "NodesFile c" data]
    by simp
  from fails a b normalize_NodesEmpty_iff [of e c] show ?thesis by blast
qed

theorem empty_node_list_error_witness:
  "normalize exampleEnv zeroConfig = Inl NodesEmpty \<and>
   normalize exampleEnv (zeroConfig\<lparr>NodesFile := ''comments.txt''\<rparr>) = Inl NodesEmpty \<and>
   mergedNodes exampleEnv (zeroConfig\<lparr>NodesFile := ''comments.txt''\<rparr>) = Inr []"
proof -
  let ?data = "''# no nodes here'' @ [CHR 0x0A] @ ''   '' @ [CHR 0x0A]"
  let ?c = "zeroConfig\<lparr>NodesFile := ''comments.txt''\<rparr>"
  have z: "Nodes zeroConfig = [] \<and> NodesFile zeroConfig = []"
    and m: "Mode zeroConfig \<in> {[], ''pool'', ''multi_port'', ''multi-port''}"
    by (simp_all add: zeroConfig_def)
  have read: "ReadFile exampleEnv (NodesFile ?c) = Inr ?data"
    by (simp add: exampleEnv_def)
  have blank: "\<forall>line \<in> set (Split ?data). TrimSpace line = [] \<or> HasPrefix (TrimSpace line) ''#''"
    by code_simp
  have c: "Nodes ?c = [] \<and> NodesFile ?c \<noteq> []"
    and mc: "Mode ?c \<in> {[], ''pool'', ''multi_port'', ''multi-port''}"
    by (simp_all add: zeroConfig_def)
  from empty_node_list_error [where c = zeroConfig and e = exampleEnv] z m
  have a: "normalize exampleEnv zeroConfig = Inl NodesEmpty" by simp
  from empty_node_list_error [where c = ?c and e = exampleEnv and data = ?data] c mc read blank
  have b: "normalize exampleEnv ?c = Inl NodesEmpty" by simp
  from empty_node_list_error [where c = ?c and e = exampleEnv and data = ?data] b
  have "mergedNodes exampleEnv ?c = Inr []" by blast
  with a b show ?thesis by simp
qed

text \<open>
  Claim C8: for a file that can be read, the node-file parser trims every line, drops the
  lines that are then empty or start with \<open>#\<close>, and returns one descriptor for each
  other line, in the order of the file, with the trimmed line as URI, an empty name and
  port zero.
\<close>

theorem loadNodesFromFile_lines:
  "ReadFile e path = Inr data \<Longrightarrow>
     loadNodesFromFile e path =
       Inr (map (\<lambda>line. \<lparr>Name = [], URI = line, Port = 0, Username = [], Password = []\<rparr>)
              (filter (\<lambda>line. line \<noteq> [] \<and> \<not> HasPrefix line ''#'')
                 (map TrimSpace (Split data))))"
  by (simp add: loadNodesFromFile_def loadNodesLines_append zeroNode_def)

theorem loadNodesFromFile_lines_witness:
  "ReadFile exampleEnv ''nodes.txt'' =
     Inr (''# comment'' @ [CHR 0x0A, CHR 0x0A] @ '' socks5://x:1 '' @ [CHR 0x0D, CHR 0x0A]
          @ ''socks5://h:3#50%25'' @ [CHR 0x0A]) \<and>
   loadNodesFromFile exampleEnv ''nodes.txt'' =
     Inr [\<lparr>Name = [], URI = ''socks5://x:1'', Port = 0, Username = [], Password = []\<rparr>,
          \<lparr>Name = [], URI = ''socks5://h:3#50%25'', Port = 0, Username = [], Password = []\<rparr>]"
proof -
  let ?data = "''# comment'' @ [CHR 0x0A, CHR 0x0A] @ '' socks5://x:1 '' @ [CHR 0x0D, CHR 0x0A]
          @ ''socks5://h:3#50%25'' @ [CHR 0x0A]"
  have read: "ReadFile exampleEnv ''nodes.txt'' = Inr ?data"
    by (simp add: exampleEnv_def)
  have "map (\<lambda>line. \<lparr>Name = [], URI = line, Port = 0, Username = [], Password = []\<rparr>)
              (filter (\<lambda>line. line \<noteq> [] \<and> \<not> HasPrefix line ''#'')
                 (map TrimSpace (Split ?data))) =
        [\<lparr>Name = [], URI = ''socks5://x:1'', Port = 0, Username = [], Password = []\<rparr>,
          \<lparr>Name = [], URI = ''socks5://h:3#50%25'', Port = 0, Username = [], Password = []\<rparr>]"
    by code_simp
  with loadNodesFromFile_lines [OF read] read show ?thesis by simp
qed

text \<open>
  Claim C9: the loop body advances the port cursor exactly when it assigns a port, so a
  node with a port of its own leaves the cursor unchanged and the port of a node with
  port zero is the base port plus the number of earlier nodes with port zero. Resolved
  ports can therefore repeat: with the default base port, a first node with port 28000
  and a second with port zero both end with port 28000.
\<close>

theorem port_cursor_advances_on_assignment:
  "(normalizeNode e c idx cur n = Inr (n', cur') \<longrightarrow>
      Port n' = (if Port n = 0 then cur else Port n) \<and>
      cur' = (if Port n = 0 then cur + 1 else cur)) \<and>
   (normalize e c = Inr c' \<longrightarrow>
      (\<exists>ms. mergedNodes e c = Inr ms \<and> length (Nodes c') = length ms \<and>
         (\<forall>i<length ms.
            Port (Nodes c' ! i) =
              (if Port (ms ! i) = 0 then cursorAt (BasePort (MultiPort c')) ms i
               else Port (ms ! i))))) \<and>
   (\<exists>r. normalize exampleEnv duplicateConfig = Inr r \<and>
        map Port (Nodes duplicateConfig) = [28000, 0] \<and>
        map Port (Nodes r) = [28000, 28000])"
proof -
  have body: "normalizeNode e c idx cur n = Inr (n', cur') \<longrightarrow>
      Port n' = (if Port n = 0 then cur else Port n) \<and>
      cur' = (if Port n = 0 then cur + 1 else cur)"
    using normalizeNode_Port [of e c idx cur n n' cur'] by blast
  have loop: "normalize e c = Inr c' \<longrightarrow>
      (\<exists>ms. mergedNodes e c = Inr ms \<and> length (Nodes c') = length ms \<and>
         (\<forall>i<length ms.
            Port (Nodes c' ! i) =
              (if Port (ms ! i) = 0 then cursorAt (BasePort (MultiPort c')) ms i
               else Port (ms ! i))))"
  proof
    assume ok: "normalize e c = Inr c'"
    then obtain ms ns where ms: "mergedNodes e c = Inr ms" and
      loop: "normalizeNodes e (prepared c) 0 (BasePort (MultiPort (prepared c))) ms = Inr ns" and
      c': "c' = (prepared c)\<lparr>Nodes := ns,
              LogLevel := (if LogLevel c = [] then ''info'' else LogLevel c)\<rparr>"
      by (rule normalize_InrE)
    from c' normalizeNodes_length [OF loop] have "length (Nodes c') = length ms" by simp
    with ms normalize_Ports [OF ok ms]
    show "\<exists>ms. mergedNodes e c = Inr ms \<and> length (Nodes c') = length ms \<and>
           (\<forall>i<length ms.
              Port (Nodes c' ! i) =
                (if Port (ms ! i) = 0 then cursorAt (BasePort (MultiPort c')) ms i
                 else Port (ms ! i)))"
      by blast
  qed
  have "normalize exampleEnv duplicateConfig =
          Inr (specResolved\<lparr>Nodes :=
            [\<lparr>Name = ''node-0'', URI = ''socks5://h:1'', Port = 28000, Username = [], Password = []\<rparr>,
             \<lparr>Name = ''node-1'', URI = ''socks5://h:2'', Port = 28000, Username = [], Password = []\<rparr>]\<rparr>)"
    by code_simp
  moreover have "map Port (Nodes duplicateConfig) = [28000, 0]"
    by (simp add: duplicateConfig_def zeroNode_def)
  ultimately have dup: "\<exists>r. normalize exampleEnv duplicateConfig = Inr r \<and>
        map Port (Nodes duplicateConfig) = [28000, 0] \<and>
        map Port (Nodes r) = [28000, 28000]"
    by simp
  from body loop dup show ?thesis by (intro conjI)
qed

theorem port_cursor_advances_on_assignment_witness:
  "normalizeNode exampleEnv duplicateConfig 0 28000
       (zeroNode\<lparr>URI := ''socks5://h:1'', Port := 28000\<rparr>) =
     Inr (\<lparr>Name = ''node-0'', URI = ''socks5://h:1'', Port = 28000,
            Username = [], Password = []\<rparr>, 28000) \<and>
   normalize exampleEnv duplicateConfig = Inr duplicateResolved \<and>
   mergedNodes exampleEnv duplicateConfig = Inr (Nodes duplicateConfig) \<and>
   Port (Nodes duplicateResolved ! 1) =
     cursorAt (BasePort (MultiPort duplicateResolved)) (Nodes duplicateConfig) 1 \<and>
   cursorAt (BasePort (MultiPort duplicateResolved)) (Nodes duplicateConfig) 1 = 28000"
proof -
  let ?n = "zeroNode\<lparr>URI := ''socks5://h:1'', Port := 28000\<rparr>"
  let ?n' = "\<lparr>Name = ''node-0'', URI = ''socks5://h:1'', Port = 28000,
            Username = [], Password = []\<rparr>"
  have body: "normalizeNode exampleEnv duplicateConfig 0 28000 ?n = Inr (?n', 28000)"
    by code_simp
  have ms: "mergedNodes exampleEnv duplicateConfig = Inr (Nodes duplicateConfig)"
    by code_simp
  have len: "length (Nodes duplicateConfig) = 2" and p1: "Port (Nodes duplicateConfig ! 1) = 0"
    by (simp_all add: duplicateConfig_def zeroNode_def)
  from port_cursor_advances_on_assignment
    [where e = exampleEnv and c = duplicateConfig and c' = duplicateResolved and idx = 0
       and cur = 28000 and n = ?n and n' = ?n' and cur' = 28000]
    body normalize_duplicateConfig ms
  have "\<forall>i<length (Nodes duplicateConfig).
          Port (Nodes duplicateResolved ! i) =
            (if Port (Nodes duplicateConfig ! i) = 0
             then cursorAt (BasePort (MultiPort duplicateResolved)) (Nodes duplicateConfig) i
             else Port (Nodes duplicateConfig ! i))"
    by auto
  with len p1 have a: "Port (Nodes duplicateResolved ! 1) =
     cursorAt (BasePort (MultiPort duplicateResolved)) (Nodes duplicateConfig) 1"
    by simp
  have b: "cursorAt (BasePort (MultiPort duplicateResolved)) (Nodes duplicateConfig) 1 = 28000"
    by code_simp
  from body normalize_duplicateConfig ms a b show ?thesis by simp
qed

text \<open>
  Claim C10: \<open>ManagementEnabled\<close> returns true when the enabled flag is nil and the
  value of the flag otherwise. The method has no error result and assigns nothing,
  so the model is a total function from the configuration to a truth value.
\<close>

theorem ManagementEnabled_value:
  "(Enabled (Management c) = None \<longrightarrow> ManagementEnabled c = True) \<and>
   (\<forall>b. Enabled (Management c) = Some b \<longrightarrow> ManagementEnabled c = b)"
  by (simp add: ManagementEnabled_def)

theorem ManagementEnabled_value_witness:
  "Enabled (Management zeroConfig) = None \<and> ManagementEnabled zeroConfig = True \<and>
   Enabled (Management exampleResolved) = Some True \<and> ManagementEnabled exampleResolved = True \<and>
   ManagementEnabled
     (zeroConfig\<lparr>Management := (Management zeroConfig)\<lparr>Enabled := Some False\<rparr>\<rparr>) = False"
proof -
  have a: "Enabled (Management zeroConfig) = None"
    by (simp add: zeroConfig_def)
  have b: "Enabled (Management exampleResolved) = Some True"
    by (simp add: exampleResolved_def)
  have c: "Enabled (Management
      (zeroConfig\<lparr>Management := (Management zeroConfig)\<lparr>Enabled := Some False\<rparr>\<rparr>)) = Some False"
    by simp
  from ManagementEnabled_value [of zeroConfig] a
  have 1: "ManagementEnabled zeroConfig = True" by blast
  from ManagementEnabled_value [of exampleResolved] b
  have 2: "ManagementEnabled exampleResolved = True" by blast
  from ManagementEnabled_value
    [of "zeroConfig\<lparr>Management := (Management zeroConfig)\<lparr>Enabled := Some False\<rparr>\<rparr>"] c
  have 3: "ManagementEnabled
     (zeroConfig\<lparr>Management := (Management zeroConfig)\<lparr>Enabled := Some False\<rparr>\<rparr>) = False"
    by blast
  from a b 1 2 3 show ?thesis by simp
qed

end
